theory Spec2Isabelle
  imports Complex_Main
begin

section \<open>JavaScript values used by the component\<close>

text \<open>
  A JavaScript number is an IEEE double. The component only compares numbers and tests
  them for truthiness, it never does arithmetic on them, so a number is modelled by its
  exact value: \<open>NaN\<close>, one of the two infinities, or a rational (every finite double is
  one; \<open>+0\<close> and \<open>-0\<close> compare equal and are both falsy, so both are \<open>Fin 0\<close>).
\<close>

datatype jsnum = NaN | NegInf | Fin rat | PosInf

text \<open>The relational comparison of ECMAScript: any comparison with \<open>NaN\<close> is false.\<close>

fun js_lt :: "jsnum \<Rightarrow> jsnum \<Rightarrow> bool" where
  "js_lt NaN b = False"
| "js_lt a NaN = False"
| "js_lt a NegInf = False"
| "js_lt NegInf b = True"
| "js_lt PosInf b = False"
| "js_lt (Fin x) PosInf = True"
| "js_lt (Fin x) (Fin y) = (x < y)"

definition js_gt :: "jsnum \<Rightarrow> jsnum \<Rightarrow> bool" where
  \<comment> \<open>\<open>a > b\<close>\<close>
  "js_gt a b = js_lt b a"

definition js_le :: "jsnum \<Rightarrow> jsnum \<Rightarrow> bool" where
  \<comment> \<open>\<open>a <= b\<close>: false when either side is \<open>NaN\<close>, otherwise the negation of \<open>b < a\<close>\<close>
  "js_le a b = (a \<noteq> NaN \<and> b \<noteq> NaN \<and> \<not> js_lt b a)"

definition truthy_num :: "jsnum \<Rightarrow> bool" where
  \<comment> \<open>a number is falsy when it is \<open>0\<close> or \<open>NaN\<close>\<close>
  "truthy_num x = (x \<noteq> NaN \<and> x \<noteq> Fin 0)"

definition truthy_str :: "string option \<Rightarrow> bool" where
  \<comment> \<open>a \<open>string | null\<close> is falsy when it is \<open>null\<close> or the empty string\<close>
  "truthy_str x = (x \<noteq> None \<and> x \<noteq> Some [])"

text \<open>The operand of \<open>Number(...)\<close> at line 41: \<open>undefined\<close>, \<open>null\<close> or a number.\<close>

datatype jsval = Undefined | Null | Num jsnum

fun Number_val :: "jsval \<Rightarrow> jsnum" where
  "Number_val Undefined = NaN"
| "Number_val Null = Fin 0"
| "Number_val (Num n) = n"

definition or_zero :: "jsnum \<Rightarrow> jsnum" where
  \<comment> \<open>\<open>x || 0\<close>\<close>
  "or_zero x = (if truthy_num x then x else Fin 0)"

type_synonym exn = string

section \<open>Data model\<close>

text \<open>
  \<open>TokenBalance\<close> (lines 14-18). The amount is stored from \<open>tokenAmount.uiAmount\<close> of the
  RPC answer, which is a number or \<open>null\<close>; \<open>None\<close> is \<open>null\<close>.
\<close>

record TokenBalance =
  mint :: string
  amount :: "jsnum option"
  decimals :: nat

text \<open>\<open>account.account.data.parsed.info\<close> of one element of the RPC answer.\<close>

record parsed_info =
  info_mint :: string
  uiAmount :: "jsnum option"
  tokenAmount_decimals :: nat

text \<open>
  The values the hooks and the props give to one render, captured by the closures of that
  render (lines 20-38): the three query parameters as \<open>searchParams.get\<close> returns them,
  the prop, and the wallet and connection hooks. For \<open>connection\<close> and \<open>signTransaction\<close>
  only whether the value is defined is recorded; \<open>publicKey\<close> is the key's base58 string.
\<close>

record render =
  amount_query :: "string option"
  receiverUsername :: "string option"
  receiverDiscordId :: "string option"
  receiverVault :: "string option"
  connection :: bool
  publicKey :: "string option"
  connected :: bool
  signTransaction :: bool

text \<open>
  What the module takes from outside the repository: the configured mint address (line 24),
  the built-in \<open>Number\<close> on strings (which includes the rounding to a double),
  \<open>Transaction.from(Buffer.from(_, "base64"))\<close> and \<open>_.serialize().toString("base64")\<close>.
  The last two may throw.
\<close>

record 'tx library =
  mintAddress :: string
  Number_string :: "string \<Rightarrow> jsnum"
  Transaction_from_base64 :: "string \<Rightarrow> exn + 'tx"
  serialize_base64 :: "'tx \<Rightarrow> exn + string"

text \<open>
  The component state: three \<open>useState\<close> cells and the \<open>useRef\<close> flag (lines 28-31).
  A \<open>setX(v)\<close> is the assignment of its cell. The two async functions never read the
  three cells, they only write them; the renders read them.
\<close>

record state =
  tokenBalance :: "TokenBalance option"
  loading :: bool
  error :: "string option"
  isFetching :: bool

definition initial_state :: state where
  "initial_state = \<lparr>tokenBalance = None, loading = False, error = None, isFetching = False\<rparr>"

section \<open>Derived values of a render\<close>

definition render_amount :: "'tx library \<Rightarrow> render \<Rightarrow> jsnum" where
  \<comment> \<open>line 36: \<open>Number(searchParams.get("amount") || 0)\<close>\<close>
  "render_amount L c =
     (case amount_query c of
        None \<Rightarrow> Fin 0
      | Some str \<Rightarrow> if str = [] then Fin 0 else Number_string L str)"

definition balanceAmount :: "state \<Rightarrow> jsnum" where
  \<comment> \<open>line 41: \<open>Number(tokenBalance?.amount) || 0\<close>\<close>
  "balanceAmount s =
     or_zero (Number_val
       (case tokenBalance s of
          None \<Rightarrow> Undefined
        | Some b \<Rightarrow> (case amount b of None \<Rightarrow> Null | Some n \<Rightarrow> Num n)))"

definition hasBalance :: "'tx library \<Rightarrow> render \<Rightarrow> state \<Rightarrow> bool" where
  \<comment> \<open>lines 40-43\<close>
  "hasBalance L c s = (if js_gt (render_amount L c) (balanceAmount s) then False else True)"

definition disabled :: "'tx library \<Rightarrow> render \<Rightarrow> state \<Rightarrow> bool" where
  \<comment> \<open>line 242: \<open>!!error || loading || !hasBalance()\<close>\<close>
  "disabled L c s = (truthy_str (error s) \<or> loading s \<or> \<not> hasBalance L c s)"

definition error_banner :: "state \<Rightarrow> string option" where
  \<comment> \<open>lines 232-236: \<open>error && <div>{error}</div>\<close>\<close>
  "error_banner s = (if truthy_str (error s) then error s else None)"

section \<open>Requests, answers and observable effects\<close>

text \<open>The argument of \<open>deposit\<close> (lines 96-106); \<open>vaultId\<close> may be \<open>undefined\<close>.\<close>

record deposit_request =
  payer :: string
  dq_vaultId :: "string option"
  strategy :: string
  network :: string
  dq_amount :: jsnum
  token_mintAddress :: string
  token_amount :: jsnum

record deposit_response =
  serializedTransaction :: string
  vaultId :: string
  transactionId :: string

text \<open>The argument of \<open>execute\<close> (lines 113-117) and its answer.\<close>

record execute_request =
  ex_vaultId :: string
  ex_transactionId :: string
  signedTransaction :: string

record execute_response =
  txHash :: string

text \<open>
  The argument of \<open>depositInDatabase\<close> (lines 119-123). \<open>discordUserId\<close> is the query
  parameter as it was read, a string or \<open>null\<close>.
\<close>

record database_request =
  db_amount :: jsnum
  db_vaultId :: string
  discordUserId :: "string option"

text \<open>The success notification of lines 125-139: its texts, its link and its duration.\<close>

record toast_content =
  toast_title :: string
  toast_text :: string
  toast_href :: string
  toast_duration :: nat

text \<open>
  Everything the component does to the outside, in the order it does it: the calls to its
  collaborators with their arguments, the notifications and the console output.
\<close>

datatype 'tx event =
    Console_log string
  | Console_error exn
  | Call_getParsedTokenAccountsByOwner "string option"
  | Call_deposit deposit_request
  | Call_signTransaction 'tx
  | Call_execute execute_request
  | Call_depositInDatabase database_request
  | Toast toast_content
  | Toast_error string

section \<open>fetchTokenBalance (lines 45-82)\<close>

text \<open>
  An async function runs up to its next \<open>await\<close>, and resumes when the awaited promise
  settles. Each such stretch of the source is one function from the component state to the
  new state and the effects of the stretch. \<open>fetchTokenBalance_begin\<close> is lines 46-58: the
  guard, the three assignments and the RPC call; its last component says whether the call
  was made and the function is now waiting for it.
\<close>

definition fetchTokenBalance_begin ::
  "render \<Rightarrow> state \<Rightarrow> state \<times> 'tx event list \<times> bool" where
  "fetchTokenBalance_begin c s =
     (if isFetching s \<or> publicKey c = None \<or> \<not> connected c \<or> \<not> connection c
      then (s, [], False)
      else (s\<lparr>isFetching := True, loading := True, error := None\<rparr>,
            [Call_getParsedTokenAccountsByOwner (publicKey c)], True))"

definition fetch_finally :: "state \<times> 'tx event list \<Rightarrow> state \<times> 'tx event list" where
  \<comment> \<open>lines 78-81\<close>
  "fetch_finally r = (case r of (s, evs) \<Rightarrow> (s\<lparr>isFetching := False, loading := False\<rparr>, evs))"

text \<open>
  Lines 60-81, run when the RPC promise settles: with \<open>Inr accounts\<close> when it resolves to
  \<open>accounts.value\<close>, with \<open>Inl err\<close> when it rejects (or the call itself threw).
\<close>

definition fetchTokenBalance_settled ::
  "'tx library \<Rightarrow> exn + parsed_info list \<Rightarrow> state \<Rightarrow> state \<times> 'tx event list" where
  "fetchTokenBalance_settled L r s =
     fetch_finally
       (case r of
          Inl err \<Rightarrow> (s\<lparr>error := Some ''Error fetching token balance''\<rparr>, [Console_error err])
        | Inr accounts \<Rightarrow>
            (case List.find (\<lambda>account. info_mint account = mintAddress L) accounts of
               Some parsedInfo \<Rightarrow>
                 (s\<lparr>tokenBalance := Some \<lparr>mint = info_mint parsedInfo,
                                          amount = uiAmount parsedInfo,
                                          decimals = tokenAmount_decimals parsedInfo\<rparr>\<rparr>, [])
             | None \<Rightarrow>
                 (s\<lparr>tokenBalance := None,
                    error := Some ''Required token not found in wallet.''\<rparr>, [])))"

section \<open>onSubmit (lines 84-145)\<close>

text \<open>
  Where a running \<open>onSubmit\<close> is suspended: the call it waits for, with the argument of
  the call and the locals its continuation reads (\<open>depositRes\<close>, then \<open>txHash\<close>).
\<close>

datatype 'tx awaiting =
    Await_deposit deposit_request
  | Await_signTransaction deposit_response 'tx
  | Await_execute deposit_response execute_request
  | Await_depositInDatabase string database_request

type_synonym 'tx stretch = "state \<times> 'tx event list \<times> 'tx awaiting option"

definition submit_preconditions :: "render \<Rightarrow> bool" where
  \<comment> \<open>neither early return is taken: the conditions of lines 85 and 89 are both false\<close>
  "submit_preconditions c =
     (\<not> (\<not> connection c \<or> publicKey c = None \<or> \<not> signTransaction c)
      \<and> \<not> (\<not> truthy_str (receiverDiscordId c)))"

definition failure_toast :: "'tx event" where
  \<comment> \<open>line 143\<close>
  "failure_toast = Toast_error ''An error occurred on transaction. Try again.''"

definition submit_catch :: "state \<Rightarrow> 'tx stretch" where
  \<comment> \<open>lines 141-144\<close>
  "submit_catch s = (s\<lparr>loading := False\<rparr>, [failure_toast], None)"

definition deposit_request_of :: "'tx library \<Rightarrow> render \<Rightarrow> string \<Rightarrow> deposit_request" where
  \<comment> \<open>lines 96-106, with \<open>pk\<close> the value of \<open>publicKey.toString()\<close>\<close>
  "deposit_request_of L c pk =
     \<lparr>payer = pk,
      dq_vaultId = (if truthy_str (receiverVault c) then receiverVault c else None),
      strategy = ''blockhash'',
      network = ''mainnet'',
      dq_amount = render_amount L c,
      token_mintAddress = mintAddress L,
      token_amount = render_amount L c\<rparr>"

text \<open>
  Lines 85-106: the two early returns, then \<open>setLoading(true)\<close> and the call of \<open>deposit\<close>.
  \<open>publicKey.toString()\<close> on \<open>null\<close> would throw inside the \<open>try\<close>.
\<close>

definition onSubmit_begin :: "'tx library \<Rightarrow> render \<Rightarrow> state \<Rightarrow> 'tx stretch" where
  "onSubmit_begin L c s =
     (if \<not> connection c \<or> publicKey c = None \<or> \<not> signTransaction c
      then (s, [Console_log ''Please connect your wallet.''], None)
      else if \<not> truthy_str (receiverDiscordId c)
      then (s, [Console_log ''Receiver Id is required.''], None)
      else (case publicKey c of
              None \<Rightarrow> submit_catch (s\<lparr>loading := True\<rparr>)
            | Some pk \<Rightarrow>
                (s\<lparr>loading := True\<rparr>, [Call_deposit (deposit_request_of L c pk)],
                 Some (Await_deposit (deposit_request_of L c pk)))))"

text \<open>Lines 96-111, from the settling of \<open>deposit\<close> to the call of \<open>signTransaction\<close>.\<close>

definition onSubmit_deposited ::
  "'tx library \<Rightarrow> exn + deposit_response \<Rightarrow> state \<Rightarrow> 'tx stretch" where
  "onSubmit_deposited L r s =
     (case r of
        Inl err \<Rightarrow> submit_catch s
      | Inr depositRes \<Rightarrow>
          (case Transaction_from_base64 L (serializedTransaction depositRes) of
             Inl err \<Rightarrow> submit_catch s
           | Inr transaction \<Rightarrow>
               (s, [Call_signTransaction transaction],
                Some (Await_signTransaction depositRes transaction))))"

definition execute_request_of :: "deposit_response \<Rightarrow> string \<Rightarrow> execute_request" where
  \<comment> \<open>lines 113-117, with \<open>b64\<close> the serialized signed transaction\<close>
  "execute_request_of depositRes b64 =
     \<lparr>ex_vaultId = vaultId depositRes,
      ex_transactionId = transactionId depositRes,
      signedTransaction = b64\<rparr>"

text \<open>Lines 111-117, from the settling of \<open>signTransaction\<close> to the call of \<open>execute\<close>.\<close>

definition onSubmit_signed ::
  "'tx library \<Rightarrow> deposit_response \<Rightarrow> exn + 'tx \<Rightarrow> state \<Rightarrow> 'tx stretch" where
  "onSubmit_signed L depositRes r s =
     (case r of
        Inl err \<Rightarrow> submit_catch s
      | Inr signedTx \<Rightarrow>
          (case serialize_base64 L signedTx of
             Inl err \<Rightarrow> submit_catch s
           | Inr b64 \<Rightarrow>
               (s, [Call_execute (execute_request_of depositRes b64)],
                Some (Await_execute depositRes (execute_request_of depositRes b64)))))"

definition database_request_of ::
  "'tx library \<Rightarrow> render \<Rightarrow> deposit_response \<Rightarrow> database_request" where
  \<comment> \<open>lines 119-123\<close>
  "database_request_of L c depositRes =
     \<lparr>db_amount = render_amount L c,
      db_vaultId = vaultId depositRes,
      discordUserId = receiverDiscordId c\<rparr>"

text \<open>Lines 113-123, from the settling of \<open>execute\<close> to the call of \<open>depositInDatabase\<close>.\<close>

definition onSubmit_executed ::
  "'tx library \<Rightarrow> render \<Rightarrow> deposit_response \<Rightarrow> exn + execute_response \<Rightarrow> state \<Rightarrow> 'tx stretch"
  where
  "onSubmit_executed L c depositRes r s =
     (case r of
        Inl err \<Rightarrow> submit_catch s
      | Inr res \<Rightarrow>
          (s, [Call_depositInDatabase (database_request_of L c depositRes)],
           Some (Await_depositInDatabase (txHash res) (database_request_of L c depositRes))))"

definition success_toast :: "render \<Rightarrow> string \<Rightarrow> toast_content" where
  \<comment> \<open>lines 125-139; React renders a \<open>null\<close> child as nothing\<close>
  "success_toast c hash =
     \<lparr>toast_title = ''Transaction Confirmed'',
      toast_text =
        ''Successfully tipped @'' @ (case receiverUsername c of None \<Rightarrow> [] | Some u \<Rightarrow> u),
      toast_href = ''https://solscan.io/tx/'' @ hash,
      toast_duration = 10000\<rparr>"

text \<open>Lines 119-140, from the settling of \<open>depositInDatabase\<close> to the end.\<close>

definition onSubmit_recorded :: "render \<Rightarrow> string \<Rightarrow> exn + unit \<Rightarrow> state \<Rightarrow> 'tx stretch" where
  "onSubmit_recorded c hash r s =
     (case r of
        Inl err \<Rightarrow> submit_catch s
      | Inr u \<Rightarrow> (s\<lparr>loading := False\<rparr>, [Toast (success_toast c hash)], None))"

text \<open>
  What a promise settles to: \<open>Inr\<close> the value it resolves to, \<open>Inl\<close> the reason it rejects
  with. A suspended run resumes at the stretch after its \<open>await\<close>; the promise of one
  collaborator never settles to the answer of another, which is \<open>None\<close> here.
\<close>

datatype 'tx settled =
    Deposit_settled "exn + deposit_response"
  | SignTransaction_settled "exn + 'tx"
  | Execute_settled "exn + execute_response"
  | DepositInDatabase_settled "exn + unit"

fun onSubmit_resume ::
  "'tx library \<Rightarrow> render \<Rightarrow> 'tx awaiting \<Rightarrow> 'tx settled \<Rightarrow> state \<Rightarrow> 'tx stretch option" where
  "onSubmit_resume L c (Await_deposit req) (Deposit_settled r) s =
     Some (onSubmit_deposited L r s)"
| "onSubmit_resume L c (Await_signTransaction depositRes tx) (SignTransaction_settled r) s =
     Some (onSubmit_signed L depositRes r s)"
| "onSubmit_resume L c (Await_execute depositRes req) (Execute_settled r) s =
     Some (onSubmit_executed L c depositRes r s)"
| "onSubmit_resume L c (Await_depositInDatabase hash req) (DepositInDatabase_settled r) s =
     Some (onSubmit_recorded c hash r s)"
| "onSubmit_resume L c a v s = None"

subsection \<open>One invocation run to its end\<close>

text \<open>
  The collaborators of \<open>onSubmit\<close>, each giving what its promise settles to on an argument.
  One invocation calls each of them at most once, so a function of the argument loses no
  behaviour of a single invocation.
\<close>

record 'tx collaborators =
  deposit :: "deposit_request \<Rightarrow> exn + deposit_response"
  wallet_signTransaction :: "'tx \<Rightarrow> exn + 'tx"
  execute :: "execute_request \<Rightarrow> exn + execute_response"
  depositInDatabase :: "database_request \<Rightarrow> exn + unit"

fun answer :: "'tx collaborators \<Rightarrow> 'tx awaiting \<Rightarrow> 'tx settled" where
  "answer E (Await_deposit req) = Deposit_settled (deposit E req)"
| "answer E (Await_signTransaction depositRes tx) =
     SignTransaction_settled (wallet_signTransaction E tx)"
| "answer E (Await_execute depositRes req) = Execute_settled (execute E req)"
| "answer E (Await_depositInDatabase hash req) =
     DepositInDatabase_settled (depositInDatabase E req)"

definition await :: "'tx collaborators \<Rightarrow> 'tx library \<Rightarrow> render \<Rightarrow> 'tx stretch \<Rightarrow> 'tx stretch"
  where
  \<comment> \<open>a suspended run gets its answer and runs its next stretch; a finished run stays\<close>
  "await E L c r =
     (case r of
        (s, evs, None) \<Rightarrow> (s, evs, None)
      | (s, evs, Some a) \<Rightarrow>
          (case onSubmit_resume L c a (answer E a) s of
             None \<Rightarrow> (s, evs, Some a)
           | Some (s', evs', a') \<Rightarrow> (s', evs @ evs', a')))"

text \<open>
  \<open>onSubmit\<close> with nothing else running in between: the first stretch and the four awaits
  of the source, in order. The result is the state, the effects in order, and the
  suspension left, which \<open>onSubmit_returns\<close> below shows to be none.
\<close>

definition onSubmit ::
  "'tx collaborators \<Rightarrow> 'tx library \<Rightarrow> render \<Rightarrow> state \<Rightarrow> 'tx stretch" where
  "onSubmit E L c s = await E L c (await E L c (await E L c (await E L c (onSubmit_begin L c s))))"

section \<open>The component on the event loop\<close>

text \<open>
  Between two stretches anything else may run. A configuration is the component state, the
  effects so far, the number of pending RPC promises of \<open>fetchTokenBalance\<close> and the
  suspended runs of \<open>onSubmit\<close>, each with the render whose closure it is.
\<close>

record 'tx config =
  comp :: state
  trace :: "'tx event list"
  fetches :: nat
  submits :: "(render \<times> 'tx awaiting) list"

definition initial_config :: "'tx config" where
  "initial_config = \<lparr>comp = initial_state, trace = [], fetches = 0, submits = []\<rparr>"

text \<open>
  What can happen: an invocation of either function from some render (the effect of line
  148, a click on the button), the RPC promise settling, the promise awaited by the
  \<open>i\<close>-th suspended \<open>onSubmit\<close> settling.
\<close>

datatype 'tx action =
    Invoke_fetchTokenBalance render
  | Settle_fetch "exn + parsed_info list"
  | Invoke_onSubmit render
  | Settle_submit nat "'tx settled"

fun react :: "'tx library \<Rightarrow> 'tx config \<Rightarrow> 'tx action \<Rightarrow> 'tx config" where
  "react L g (Invoke_fetchTokenBalance c) =
     (case fetchTokenBalance_begin c (comp g) of
        (s, evs, waiting) \<Rightarrow>
          g\<lparr>comp := s, trace := trace g @ evs,
            fetches := (if waiting then Suc (fetches g) else fetches g)\<rparr>)"
| "react L g (Settle_fetch r) =
     (if fetches g = 0 then g
      else (case fetchTokenBalance_settled L r (comp g) of
              (s, evs) \<Rightarrow> g\<lparr>comp := s, trace := trace g @ evs, fetches := fetches g - 1\<rparr>))"
| "react L g (Invoke_onSubmit c) =
     (case onSubmit_begin L c (comp g) of
        (s, evs, a) \<Rightarrow>
          g\<lparr>comp := s, trace := trace g @ evs,
            submits := submits g @ (case a of None \<Rightarrow> [] | Some a' \<Rightarrow> [(c, a')])\<rparr>)"
| "react L g (Settle_submit i v) =
     (if i < length (submits g)
      then (case submits g ! i of
              (c, a) \<Rightarrow>
                (case onSubmit_resume L c a v (comp g) of
                   None \<Rightarrow> g
                 | Some (s, evs, a') \<Rightarrow>
                     g\<lparr>comp := s, trace := trace g @ evs,
                       submits :=
                         (case a' of
                            None \<Rightarrow> take i (submits g) @ drop (Suc i) (submits g)
                          | Some a'' \<Rightarrow> (submits g)[i := (c, a'')])\<rparr>))
      else g)"

definition run :: "'tx library \<Rightarrow> 'tx action list \<Rightarrow> 'tx config" where
  "run L acts = foldl (react L) initial_config acts"

text \<open>
  An invocation of \<open>onSubmit\<close> on the event loop with the collaborators \<open>E\<close>: the promise
  awaited by the \<open>i\<close>-th suspended run settles to what \<open>E\<close> answers to its call.
  \<open>suspended_as g c r\<close> is the configuration \<open>g\<close> after a run of render \<open>c\<close> has come to
  \<open>r\<close>, its state and effects taken over and its suspension, if any, put last.
\<close>

definition settle_with :: "'tx collaborators \<Rightarrow> 'tx library \<Rightarrow> nat \<Rightarrow> 'tx config \<Rightarrow> 'tx config" where
  "settle_with E L i g =
     (if i < length (submits g)
      then react L g (Settle_submit i (answer E (snd (submits g ! i))))
      else g)"

definition suspended_as :: "'tx config \<Rightarrow> render \<Rightarrow> 'tx stretch \<Rightarrow> 'tx config" where
  "suspended_as g c r =
     (case r of
        (s, evs, a) \<Rightarrow>
          g\<lparr>comp := s, trace := trace g @ evs,
            submits := submits g @ (case a of None \<Rightarrow> [] | Some a' \<Rightarrow> [(c, a')])\<rparr>)"

text \<open>
  What every configuration the component can be in satisfies: at most one RPC promise is
  pending, the flag is set exactly while one is, the error is clear while one is, and the
  error is never the empty string.
\<close>

definition loop_invariant :: "'tx config \<Rightarrow> bool" where
  "loop_invariant g =
     (fetches g \<le> 1
      \<and> (isFetching (comp g) = (fetches g = 1))
      \<and> (isFetching (comp g) \<longrightarrow> error (comp g) = None)
      \<and> error (comp g) \<noteq> Some [])"

text \<open>
  The outcome of a run of \<open>onSubmit\<close> that made the calls \<open>calls\<close> and then failed:
  those calls and then the one failure notification, \<open>loading\<close> false, nothing pending.
\<close>

definition aborted_after :: "state \<Rightarrow> 'tx event list \<Rightarrow> 'tx stretch" where
  "aborted_after s calls = (s\<lparr>loading := False\<rparr>, calls @ [failure_toast], None)"

text \<open>
  Affordability as the specification words it, for comparison with \<open>hasBalance\<close>: the
  requested amount is less than or equal to the fetched balance amount, a missing or
  \<open>null\<close> balance counting as 0.
\<close>

definition affordable_as_specified :: "'tx library \<Rightarrow> render \<Rightarrow> state \<Rightarrow> bool" where
  "affordable_as_specified L c s =
     js_le (render_amount L c)
       (case tokenBalance s of
          None \<Rightarrow> Fin 0
        | Some b \<Rightarrow> (case amount b of None \<Rightarrow> Fin 0 | Some n \<Rightarrow> n))"

section \<open>A concrete library and concrete collaborators\<close>

text \<open>
  Instances of the parameters, for evaluating the component on concrete inputs.
  \<open>Number_decimal\<close> gives a string of decimal digits its value and every string with
  another character \<open>NaN\<close>, as \<open>Number\<close> does on \<open>"5"\<close> and on \<open>"abc"\<close>.
\<close>

fun digits_value :: "nat \<Rightarrow> string \<Rightarrow> nat option" where
  "digits_value n [] = Some n"
| "digits_value n (d # ds) =
     (if d \<in> set ''0123456789'' then digits_value (10 * n + (of_char d - 48)) ds else None)"

definition Number_decimal :: "string \<Rightarrow> jsnum" where
  "Number_decimal str = (case digits_value 0 str of None \<Rightarrow> NaN | Some n \<Rightarrow> Fin (of_nat n))"

definition usdc :: string where
  "usdc = ''EPjFWdd5AufqSSqeM2qN1xzybapC8G4wEGGkZwyTDt1v''"

definition lib0 :: "string library" where
  "lib0 = \<lparr>mintAddress = usdc,
           Number_string = Number_decimal,
           Transaction_from_base64 = (\<lambda>b. if b = [] then Inl ''no transaction'' else Inr b),
           serialize_base64 = (\<lambda>tx. Inr tx)\<rparr>"

definition render0 :: render where
  "render0 = \<lparr>amount_query = Some ''5'', receiverUsername = Some ''alice'',
              receiverDiscordId = Some ''42'', receiverVault = None, connection = True,
              publicKey = Some ''payer'', connected = True, signTransaction = True\<rparr>"

definition depositRes0 :: deposit_response where
  "depositRes0 = \<lparr>serializedTransaction = ''AQID'', vaultId = ''vault'', transactionId = ''t1''\<rparr>"

definition env0 :: "string collaborators" where
  "env0 = \<lparr>deposit = (\<lambda>req. Inr depositRes0),
           wallet_signTransaction = (\<lambda>tx. Inr (tx @ ''+sig'')),
           execute = (\<lambda>req. Inr \<lparr>txHash = ''5VfY''\<rparr>),
           depositInDatabase = (\<lambda>req. Inr ())\<rparr>"

definition account0 :: parsed_info where
  "account0 = \<lparr>info_mint = usdc, uiAmount = Some (Fin 12), tokenAmount_decimals = 6\<rparr>"

definition account1 :: parsed_info where
  "account1 = \<lparr>info_mint = ''So11111111111111111111111111111111111111112'',
                uiAmount = Some (Fin 3), tokenAmount_decimals = 9\<rparr>"

section \<open>The comparisons\<close>

lemma js_lt_NaN_right [simp]: "\<not> js_lt a NaN"
  by (cases a) simp_all

lemma js_le_iff: "js_le a b = (a \<noteq> NaN \<and> b \<noteq> NaN \<and> \<not> js_gt a b)"
  by (simp add: js_le_def js_gt_def)

lemma js_gt_NaN [simp]: "\<not> js_gt NaN b" "\<not> js_gt a NaN"
  by (simp_all add: js_gt_def)

lemma or_zero_not_NaN: "or_zero x \<noteq> NaN"
  by (simp add: or_zero_def truthy_num_def)

lemma balanceAmount_not_NaN: "balanceAmount s \<noteq> NaN"
  by (simp add: balanceAmount_def or_zero_not_NaN)

lemma balanceAmount_cases:
  "balanceAmount s =
     (case tokenBalance s of
        None \<Rightarrow> Fin 0
      | Some b \<Rightarrow> (case amount b of None \<Rightarrow> Fin 0 | Some n \<Rightarrow> if n = NaN then Fin 0 else n))"
  by (simp add: balanceAmount_def or_zero_def truthy_num_def split: option.splits)

section \<open>The stretches of onSubmit composed\<close>

lemma await_finished [simp]: "await E L c (s, evs, None) = (s, evs, None)"
  by (simp add: await_def)

lemma await_deposit:
  "await E L c (s, evs, Some (Await_deposit req)) =
     (case onSubmit_deposited L (deposit E req) s of (s', evs', a) \<Rightarrow> (s', evs @ evs', a))"
  by (simp add: await_def)

lemma await_signTransaction:
  "await E L c (s, evs, Some (Await_signTransaction d tx)) =
     (case onSubmit_signed L d (wallet_signTransaction E tx) s of
        (s', evs', a) \<Rightarrow> (s', evs @ evs', a))"
  by (simp add: await_def)

lemma await_execute:
  "await E L c (s, evs, Some (Await_execute d req)) =
     (case onSubmit_executed L c d (execute E req) s of (s', evs', a) \<Rightarrow> (s', evs @ evs', a))"
  by (simp add: await_def)

lemma await_depositInDatabase:
  "await E L c (s, evs, Some (Await_depositInDatabase h req)) =
     (case onSubmit_recorded c h (depositInDatabase E req) s of
        (s', evs', a) \<Rightarrow> (s', evs @ evs', a))"
  by (simp add: await_def)

lemmas await_simps = await_deposit await_signTransaction await_execute await_depositInDatabase

lemma onSubmit_begin_ok:
  "submit_preconditions c \<Longrightarrow> publicKey c = Some pk \<Longrightarrow>
   onSubmit_begin L c s =
     (s\<lparr>loading := True\<rparr>, [Call_deposit (deposit_request_of L c pk)],
      Some (Await_deposit (deposit_request_of L c pk)))"
  by (simp add: onSubmit_begin_def submit_preconditions_def)

lemma onSubmit_begin_no:
  "\<not> submit_preconditions c \<Longrightarrow>
   onSubmit_begin L c s =
     (s, [Console_log (if \<not> connection c \<or> publicKey c = None \<or> \<not> signTransaction c
                       then ''Please connect your wallet.'' else ''Receiver Id is required.'')],
      None)"
  by (auto simp add: onSubmit_begin_def submit_preconditions_def)

lemma preconditions_publicKey: "submit_preconditions c \<Longrightarrow> \<exists>pk. publicKey c = Some pk"
  by (auto simp: submit_preconditions_def)

lemma onSubmit_run:
  assumes "submit_preconditions c" and "publicKey c = Some pk"
  shows "onSubmit E L c s =
    (case deposit E (deposit_request_of L c pk) of
       Inl e \<Rightarrow> (s\<lparr>loading := False\<rparr>, [Call_deposit (deposit_request_of L c pk), failure_toast], None)
     | Inr d \<Rightarrow>
    (case Transaction_from_base64 L (serializedTransaction d) of
       Inl e \<Rightarrow> (s\<lparr>loading := False\<rparr>, [Call_deposit (deposit_request_of L c pk), failure_toast], None)
     | Inr tx \<Rightarrow>
    (case wallet_signTransaction E tx of
       Inl e \<Rightarrow> (s\<lparr>loading := False\<rparr>,
                 [Call_deposit (deposit_request_of L c pk), Call_signTransaction tx, failure_toast],
                 None)
     | Inr stx \<Rightarrow>
    (case serialize_base64 L stx of
       Inl e \<Rightarrow> (s\<lparr>loading := False\<rparr>,
                 [Call_deposit (deposit_request_of L c pk), Call_signTransaction tx, failure_toast],
                 None)
     | Inr b64 \<Rightarrow>
    (case execute E (execute_request_of d b64) of
       Inl e \<Rightarrow> (s\<lparr>loading := False\<rparr>,
                 [Call_deposit (deposit_request_of L c pk), Call_signTransaction tx,
                  Call_execute (execute_request_of d b64), failure_toast], None)
     | Inr res \<Rightarrow>
    (case depositInDatabase E (database_request_of L c d) of
       Inl e \<Rightarrow> (s\<lparr>loading := False\<rparr>,
                 [Call_deposit (deposit_request_of L c pk), Call_signTransaction tx,
                  Call_execute (execute_request_of d b64),
                  Call_depositInDatabase (database_request_of L c d), failure_toast], None)
     | Inr u \<Rightarrow> (s\<lparr>loading := False\<rparr>,
                 [Call_deposit (deposit_request_of L c pk), Call_signTransaction tx,
                  Call_execute (execute_request_of d b64),
                  Call_depositInDatabase (database_request_of L c d),
                  Toast (success_toast c (txHash res))], None)))))))"
  using assms
  by (simp add: onSubmit_def onSubmit_begin_ok await_simps onSubmit_deposited_def
      onSubmit_signed_def onSubmit_executed_def onSubmit_recorded_def submit_catch_def
      failure_toast_def split: sum.splits)

lemma onSubmit_early:
  "\<not> submit_preconditions c \<Longrightarrow>
   onSubmit E L c s =
     (s, [Console_log (if \<not> connection c \<or> publicKey c = None \<or> \<not> signTransaction c
                       then ''Please connect your wallet.'' else ''Receiver Id is required.'')],
      None)"
  by (simp add: onSubmit_def onSubmit_begin_no)

lemma onSubmit_returns: "snd (snd (onSubmit E L c s)) = None"
proof (cases "submit_preconditions c")
  case True
  then obtain pk where "publicKey c = Some pk"
    using preconditions_publicKey by blast
  with True show ?thesis
    by (simp add: onSubmit_run split: sum.splits)
next
  case False
  then show ?thesis by (simp add: onSubmit_early)
qed

section \<open>The invariant of the event loop\<close>

lemma run_Nil [simp]: "run L [] = initial_config"
  by (simp add: run_def)

lemma run_snoc [simp]: "run L (acts @ [a]) = react L (run L acts) a"
  by (simp add: run_def)

lemma submit_catch_keeps:
  "submit_catch s = (s', evs, a) \<Longrightarrow>
   tokenBalance s' = tokenBalance s \<and> error s' = error s \<and> isFetching s' = isFetching s"
  by (auto simp: submit_catch_def)

lemma onSubmit_begin_keeps:
  "onSubmit_begin L c s = (s', evs, a) \<Longrightarrow>
   tokenBalance s' = tokenBalance s \<and> error s' = error s \<and> isFetching s' = isFetching s"
  by (auto simp: onSubmit_begin_def submit_catch_def split: if_splits option.splits)

lemma onSubmit_resume_keeps:
  "onSubmit_resume L c a v s = Some (s', evs, a') \<Longrightarrow>
   tokenBalance s' = tokenBalance s \<and> error s' = error s \<and> isFetching s' = isFetching s"
  by (cases "(L, c, a, v, s)" rule: onSubmit_resume.cases)
     (auto simp: onSubmit_deposited_def onSubmit_signed_def onSubmit_executed_def
        onSubmit_recorded_def submit_catch_def split: sum.splits)

lemma loop_invariant_initial: "loop_invariant initial_config"
  by (simp add: loop_invariant_def initial_config_def initial_state_def)

lemma loop_invariant_react:
  assumes "loop_invariant g"
  shows "loop_invariant (react L g a)"
proof (cases a)
  case (Invoke_fetchTokenBalance c)
  with assms show ?thesis
    by (auto simp: loop_invariant_def fetchTokenBalance_begin_def)
next
  case (Settle_fetch r)
  with assms show ?thesis
    by (auto simp: loop_invariant_def fetchTokenBalance_settled_def fetch_finally_def
        split: sum.splits option.splits)
next
  case (Invoke_onSubmit c)
  obtain s' evs a' where b: "onSubmit_begin L c (comp g) = (s', evs, a')"
    by (cases "onSubmit_begin L c (comp g)") auto
  from onSubmit_begin_keeps [OF b] assms Invoke_onSubmit b show ?thesis
    by (simp add: loop_invariant_def)
next
  case (Settle_submit i v)
  show ?thesis
  proof (cases "i < length (submits g)")
    case False
    with assms Settle_submit show ?thesis by simp
  next
    case True
    obtain c a0 where f: "submits g ! i = (c, a0)"
      by (cases "submits g ! i") auto
    show ?thesis
    proof (cases "onSubmit_resume L c a0 v (comp g)")
      case None
      with assms Settle_submit True f show ?thesis by simp
    next
      case (Some r)
      obtain s' evs a' where r: "r = (s', evs, a')"
        by (cases r) auto
      from onSubmit_resume_keeps [of L c a0 v "comp g" s' evs a'] Some r assms Settle_submit True f
      show ?thesis
        by (simp add: loop_invariant_def)
    qed
  qed
qed

lemma loop_invariant_run: "loop_invariant (run L acts)"
  by (induction acts rule: rev_induct) (simp_all add: loop_invariant_initial loop_invariant_react)

subsection \<open>One invocation of onSubmit on the event loop\<close>

text \<open>
  The run of \<open>onSubmit\<close> to its end is what the event loop does when the invocation is
  followed by the settling of its own promises: the same state and the same effects, and
  the suspended runs of \<open>g\<close> untouched.
\<close>

lemma invoke_suspended:
  "react L g (Invoke_onSubmit c) = suspended_as g c (onSubmit_begin L c (comp g))"
  by (simp add: suspended_as_def)

lemma settle_suspended:
  "settle_with E L (length (submits g)) (suspended_as g c r) = suspended_as g c (await E L c r)"
proof -
  obtain s evs a where r: "r = (s, evs, a)"
    by (cases r) auto
  show ?thesis
  proof (cases a)
    case None
    with r show ?thesis
      by (simp add: settle_with_def suspended_as_def)
  next
    case (Some a0)
    show ?thesis
    proof (cases "onSubmit_resume L c a0 (answer E a0) s")
      case None
      with r Some show ?thesis
        by (simp add: settle_with_def suspended_as_def await_def)
    next
      case (Some q)
      obtain s' evs' a' where q: "q = (s', evs', a')"
        by (cases q) auto
      with r \<open>a = Some a0\<close> Some show ?thesis
        by (cases a') (simp_all add: settle_with_def suspended_as_def await_def)
    qed
  qed
qed

lemma onSubmit_on_the_loop:
  "(settle_with E L (length (submits g)) ^^ 4) (react L g (Invoke_onSubmit c)) =
     g\<lparr>comp := fst (onSubmit E L c (comp g)),
       trace := trace g @ fst (snd (onSubmit E L c (comp g)))\<rparr>"
proof -
  have "(settle_with E L (length (submits g)) ^^ 4) (react L g (Invoke_onSubmit c)) =
      suspended_as g c (onSubmit E L c (comp g))"
    by (simp add: numeral_eq_Suc invoke_suspended settle_suspended onSubmit_def del: react.simps)
  moreover obtain s evs where "onSubmit E L c (comp g) = (s, evs, None)"
    using onSubmit_returns [of E L c "comp g"] by (cases "onSubmit E L c (comp g)") auto
  ultimately show ?thesis
    by (simp add: suspended_as_def)
qed

section \<open>Facts shared by the properties below\<close>

lemmas sample_defs = render0_def env0_def lib0_def depositRes0_def account0_def account1_def
  usdc_def Number_decimal_def initial_state_def initial_config_def

lemmas request_defs = deposit_request_of_def execute_request_of_def database_request_of_def
  render_amount_def success_toast_def failure_toast_def truthy_str_def

lemmas fetch_defs = fetchTokenBalance_begin_def fetchTokenBalance_settled_def fetch_finally_def

lemma preconditions_render0: "submit_preconditions render0" "publicKey render0 = Some ''payer''"
  by (simp_all add: submit_preconditions_def truthy_str_def render0_def)

lemma error_reachable:
  "error (comp (run L acts)) \<noteq> Some []"
  using loop_invariant_run [of L acts] by (simp add: loop_invariant_def)

lemma render_amount_NaN:
  "amount_query c = Some str \<Longrightarrow> str \<noteq> [] \<Longrightarrow> Number_string L str = NaN \<Longrightarrow>
   render_amount L c = NaN"
  by (simp add: render_amount_def)

lemma onSubmit_deposit_amounts:
  "Call_deposit req \<in> set (fst (snd (onSubmit E L c s))) \<Longrightarrow>
   dq_amount req = render_amount L c \<and> token_amount req = render_amount L c"
proof (cases "submit_preconditions c")
  case True
  assume a: "Call_deposit req \<in> set (fst (snd (onSubmit E L c s)))"
  from True obtain pk where pk: "publicKey c = Some pk"
    using preconditions_publicKey by blast
  from a have "req = deposit_request_of L c pk"
    by (simp add: onSubmit_run [OF True pk] failure_toast_def split: sum.splits)
  then show ?thesis
    by (simp add: deposit_request_of_def)
next
  case False
  assume "Call_deposit req \<in> set (fst (snd (onSubmit E L c s)))"
  with False show ?thesis
    by (simp add: onSubmit_early)
qed

lemma onSubmit_database_amount:
  "Call_depositInDatabase req \<in> set (fst (snd (onSubmit E L c s))) \<Longrightarrow>
   db_amount req = render_amount L c"
proof (cases "submit_preconditions c")
  case True
  assume a: "Call_depositInDatabase req \<in> set (fst (snd (onSubmit E L c s)))"
  from True obtain pk where pk: "publicKey c = Some pk"
    using preconditions_publicKey by blast
  from a have "\<exists>d. req = database_request_of L c d"
    by (auto simp add: onSubmit_run [OF True pk] failure_toast_def split: sum.splits)
  then show ?thesis
    by (auto simp add: database_request_of_def)
next
  case False
  assume "Call_depositInDatabase req \<in> set (fst (snd (onSubmit E L c s)))"
  with False show ?thesis
    by (simp add: onSubmit_early)
qed

lemma onSubmit_first_call:
  "submit_preconditions c \<Longrightarrow> publicKey c = Some pk \<Longrightarrow>
   \<exists>rest. fst (snd (onSubmit E L c s)) = Call_deposit (deposit_request_of L c pk) # rest"
  by (simp add: onSubmit_run split: sum.splits)

lemma blocked_fetch:
  "isFetching (comp g) \<or> publicKey c = None \<or> \<not> connected c \<or> \<not> connection c \<Longrightarrow>
   react L g (Invoke_fetchTokenBalance c) = g"
  by (simp add: fetchTokenBalance_begin_def)

lemma settled_fetch_clears:
  "loop_invariant g \<Longrightarrow>
   \<not> isFetching (comp (react L g (Settle_fetch r))) \<and> fetches (react L g (Settle_fetch r)) = 0"
  by (auto simp: loop_invariant_def fetch_defs split: sum.splits option.splits)

lemma onSubmit_begin_early_iff:
  "(\<exists>msg. onSubmit_begin L c s = (s, [Console_log msg], None)) =
   (\<not> connection c \<or> publicKey c = None \<or> \<not> signTransaction c
    \<or> receiverDiscordId c = None \<or> receiverDiscordId c = Some [])"
  by (auto simp: onSubmit_begin_def truthy_str_def submit_catch_def failure_toast_def
      split: option.splits)

lemma onSubmit_effects_stateless:
  "snd (onSubmit E L c s) = snd (onSubmit E L c s')"
proof (cases "submit_preconditions c")
  case True
  then obtain pk where "publicKey c = Some pk"
    using preconditions_publicKey by blast
  with True show ?thesis
    by (simp add: onSubmit_run split: sum.splits)
next
  case False
  then show ?thesis by (simp add: onSubmit_early)
qed

lemma onSubmit_resume_stateless:
  "map_option snd (onSubmit_resume L c a v s) = map_option snd (onSubmit_resume L c a v s')"
  by (cases "(L, c, a, v, s)" rule: onSubmit_resume.cases)
     (simp_all add: onSubmit_deposited_def onSubmit_signed_def onSubmit_executed_def
        onSubmit_recorded_def submit_catch_def split: sum.splits)

lemma settled_deposit_proceeds:
  "i < length (submits g) \<Longrightarrow> submits g ! i = (c, Await_deposit req) \<Longrightarrow>
   Transaction_from_base64 L (serializedTransaction d) = Inr tx \<Longrightarrow>
   react L g (Settle_submit i (Deposit_settled (Inr d))) =
     g\<lparr>trace := trace g @ [Call_signTransaction tx],
       submits := (submits g)[i := (c, Await_signTransaction d tx)]\<rparr>"
  by (simp add: onSubmit_deposited_def)

lemma settled_signTransaction_proceeds:
  "i < length (submits g) \<Longrightarrow> submits g ! i = (c, Await_signTransaction d tx) \<Longrightarrow>
   serialize_base64 L stx = Inr b64 \<Longrightarrow>
   react L g (Settle_submit i (SignTransaction_settled (Inr stx))) =
     g\<lparr>trace := trace g @ [Call_execute (execute_request_of d b64)],
       submits := (submits g)[i := (c, Await_execute d (execute_request_of d b64))]\<rparr>"
  by (simp add: onSubmit_signed_def)

lemma settled_execute_proceeds:
  "i < length (submits g) \<Longrightarrow> submits g ! i = (c, Await_execute d req) \<Longrightarrow>
   react L g (Settle_submit i (Execute_settled (Inr res))) =
     g\<lparr>trace := trace g @ [Call_depositInDatabase (database_request_of L c d)],
       submits := (submits g)[i := (c, Await_depositInDatabase (txHash res)
                                          (database_request_of L c d))]\<rparr>"
  by (simp add: onSubmit_executed_def)

lemma settled_depositInDatabase_ends:
  "i < length (submits g) \<Longrightarrow> submits g ! i = (c, Await_depositInDatabase h req) \<Longrightarrow>
   react L g (Settle_submit i (DepositInDatabase_settled (Inr u))) =
     g\<lparr>comp := (comp g)\<lparr>loading := False\<rparr>,
       trace := trace g @ [Toast (success_toast c h)],
       submits := take i (submits g) @ drop (Suc i) (submits g)\<rparr>"
  by (simp add: onSubmit_recorded_def)

lemma reentrant_run:
  assumes "submit_preconditions c" and "publicKey c = Some pk"
    and "deposit E (deposit_request_of L c pk) = Inr d"
    and "Transaction_from_base64 L (serializedTransaction d) = Inr tx"
    and "wallet_signTransaction E tx = Inr stx"
    and "serialize_base64 L stx = Inr b64"
    and "execute E (execute_request_of d b64) = Inr res"
    and "depositInDatabase E (database_request_of L c d) = Inr u"
  shows "(settle_with E L (length (submits g)) ^^ 4) (react L g (Invoke_onSubmit c)) =
     g\<lparr>comp := (comp g)\<lparr>loading := False\<rparr>,
       trace := trace g @
         [Call_deposit (deposit_request_of L c pk),
          Call_signTransaction tx,
          Call_execute (execute_request_of d b64),
          Call_depositInDatabase (database_request_of L c d),
          Toast (success_toast c (txHash res))]\<rparr>"
  unfolding onSubmit_on_the_loop
  using assms by (simp add: onSubmit_run)

section \<open>The submit sequence\<close>



text \<open>
  C2. When the preconditions hold and a step throws (\<open>deposit\<close>, the deserialization or
  \<open>signTransaction\<close>, the serialization or \<open>execute\<close>, \<open>depositInDatabase\<close>), \<open>onSubmit\<close>
  has called the steps up to the failing one and none after it, shows exactly one failure
  notification and no success notification, and returns with \<open>loading\<close> false. One
  conjunct for each place where the run can fail.
\<close>

theorem onSubmit_failure:
  assumes "submit_preconditions c" and "publicKey c = Some pk"
  shows
    "(deposit E (deposit_request_of L c pk) = Inl e1 \<longrightarrow>
        onSubmit E L c s = aborted_after s [Call_deposit (deposit_request_of L c pk)])
     \<and> (deposit E (deposit_request_of L c pk) = Inr d \<longrightarrow>
        Transaction_from_base64 L (serializedTransaction d) = Inl e2 \<longrightarrow>
        onSubmit E L c s = aborted_after s [Call_deposit (deposit_request_of L c pk)])
     \<and> (deposit E (deposit_request_of L c pk) = Inr d \<longrightarrow>
        Transaction_from_base64 L (serializedTransaction d) = Inr tx \<longrightarrow>
        wallet_signTransaction E tx = Inl e3 \<longrightarrow>
        onSubmit E L c s =
          aborted_after s [Call_deposit (deposit_request_of L c pk), Call_signTransaction tx])
     \<and> (deposit E (deposit_request_of L c pk) = Inr d \<longrightarrow>
        Transaction_from_base64 L (serializedTransaction d) = Inr tx \<longrightarrow>
        wallet_signTransaction E tx = Inr stx \<longrightarrow>
        serialize_base64 L stx = Inl e4 \<longrightarrow>
        onSubmit E L c s =
          aborted_after s [Call_deposit (deposit_request_of L c pk), Call_signTransaction tx])
     \<and> (deposit E (deposit_request_of L c pk) = Inr d \<longrightarrow>
        Transaction_from_base64 L (serializedTransaction d) = Inr tx \<longrightarrow>
        wallet_signTransaction E tx = Inr stx \<longrightarrow>
        serialize_base64 L stx = Inr b64 \<longrightarrow>
        execute E (execute_request_of d b64) = Inl e5 \<longrightarrow>
        onSubmit E L c s =
          aborted_after s [Call_deposit (deposit_request_of L c pk), Call_signTransaction tx,
                           Call_execute (execute_request_of d b64)])
     \<and> (deposit E (deposit_request_of L c pk) = Inr d \<longrightarrow>
        Transaction_from_base64 L (serializedTransaction d) = Inr tx \<longrightarrow>
        wallet_signTransaction E tx = Inr stx \<longrightarrow>
        serialize_base64 L stx = Inr b64 \<longrightarrow>
        execute E (execute_request_of d b64) = Inr res \<longrightarrow>
        depositInDatabase E (database_request_of L c d) = Inl e6 \<longrightarrow>
        onSubmit E L c s =
          aborted_after s [Call_deposit (deposit_request_of L c pk), Call_signTransaction tx,
                           Call_execute (execute_request_of d b64),
                           Call_depositInDatabase (database_request_of L c d)])"
  using assms by (simp add: onSubmit_run aborted_after_def)

theorem onSubmit_failure_witness:
  "submit_preconditions render0
   \<and> onSubmit (env0\<lparr>deposit := (\<lambda>req. Inl ''no vault'')\<rparr>) lib0 render0
        (initial_state\<lparr>loading := True\<rparr>) =
       (initial_state,
        [Call_deposit (deposit_request_of lib0 render0 ''payer''),
         Toast_error ''An error occurred on transaction. Try again.''], None)
   \<and> onSubmit (env0\<lparr>wallet_signTransaction := (\<lambda>tx. Inl ''user rejected'')\<rparr>) lib0 render0
        initial_state =
       (initial_state,
        [Call_deposit (deposit_request_of lib0 render0 ''payer''),
         Call_signTransaction ''AQID'',
         Toast_error ''An error occurred on transaction. Try again.''], None)
   \<and> onSubmit (env0\<lparr>execute := (\<lambda>req. Inl ''rejected'')\<rparr>) lib0 render0 initial_state =
       (initial_state,
        [Call_deposit (deposit_request_of lib0 render0 ''payer''),
         Call_signTransaction ''AQID'',
         Call_execute \<lparr>ex_vaultId = ''vault'', ex_transactionId = ''t1'',
                       signedTransaction = ''AQID+sig''\<rparr>,
         Toast_error ''An error occurred on transaction. Try again.''], None)
   \<and> onSubmit (env0\<lparr>depositInDatabase := (\<lambda>req. Inl ''database down'')\<rparr>) lib0 render0
        initial_state =
       (initial_state,
        [Call_deposit (deposit_request_of lib0 render0 ''payer''),
         Call_signTransaction ''AQID'',
         Call_execute \<lparr>ex_vaultId = ''vault'', ex_transactionId = ''t1'',
                       signedTransaction = ''AQID+sig''\<rparr>,
         Call_depositInDatabase \<lparr>db_amount = Fin 5, db_vaultId = ''vault'',
                                 discordUserId = Some ''42''\<rparr>,
         Toast_error ''An error occurred on transaction. Try again.''], None)"
  using
    onSubmit_failure [OF preconditions_render0,
      where E = "env0\<lparr>deposit := (\<lambda>req. Inl ''no vault'')\<rparr>" and L = lib0
        and ?e1.0 = "''no vault''" and s = "initial_state\<lparr>loading := True\<rparr>"]
    onSubmit_failure [OF preconditions_render0,
      where E = "env0\<lparr>wallet_signTransaction := (\<lambda>tx. Inl ''user rejected'')\<rparr>" and L = lib0
        and d = depositRes0 and tx = "''AQID''" and ?e3.0 = "''user rejected''"
        and s = initial_state]
    onSubmit_failure [OF preconditions_render0,
      where E = "env0\<lparr>execute := (\<lambda>req. Inl ''rejected'')\<rparr>" and L = lib0
        and d = depositRes0 and tx = "''AQID''" and stx = "''AQID+sig''"
        and ?b64.0 = "''AQID+sig''" and ?e5.0 = "''rejected''" and s = initial_state]
    onSubmit_failure [OF preconditions_render0,
      where E = "env0\<lparr>depositInDatabase := (\<lambda>req. Inl ''database down'')\<rparr>" and L = lib0
        and d = depositRes0 and tx = "''AQID''" and stx = "''AQID+sig''"
        and ?b64.0 = "''AQID+sig''" and res = "\<lparr>txHash = ''5VfY''\<rparr>"
        and ?e6.0 = "''database down''" and s = initial_state]
  by (simp add: submit_preconditions_def aborted_after_def sample_defs request_defs)

text \<open>
  C5. When a precondition fails (no connection, no public key, no signer, or a receiver
  identifier that is absent or empty), \<open>onSubmit\<close> returns at once: the component state,
  \<open>loading\<close> and \<open>error\<close> included, is what it was, no collaborator is called and no
  notification is shown; the only effect is one message on the console. On the event loop
  nothing but the trace changes.
\<close>

theorem onSubmit_precondition_failure:
  assumes "\<not> connection c \<or> publicKey c = None \<or> \<not> signTransaction c
           \<or> receiverDiscordId c = None \<or> receiverDiscordId c = Some []"
  shows "\<exists>msg. onSubmit E L c s = (s, [Console_log msg], None)
           \<and> react L g (Invoke_onSubmit c) = g\<lparr>trace := trace g @ [Console_log msg]\<rparr>"
proof -
  from assms have "\<not> submit_preconditions c"
    by (auto simp: submit_preconditions_def truthy_str_def)
  then show ?thesis
    by (simp add: onSubmit_early onSubmit_begin_no)
qed

theorem onSubmit_precondition_failure_witness:
  "receiverDiscordId (render0\<lparr>receiverDiscordId := None\<rparr>) = None
   \<and> onSubmit env0 lib0 (render0\<lparr>receiverDiscordId := None\<rparr>) initial_state =
       (initial_state, [Console_log ''Receiver Id is required.''], None)
   \<and> run lib0 [Invoke_onSubmit (render0\<lparr>receiverDiscordId := None\<rparr>)] =
       initial_config\<lparr>trace := [Console_log ''Receiver Id is required.'']\<rparr>"
  using onSubmit_precondition_failure [where c = "render0\<lparr>receiverDiscordId := None\<rparr>"
      and E = env0 and L = lib0 and s = initial_state and g = initial_config]
  by (simp add: run_def onSubmit_def onSubmit_begin_def truthy_str_def render0_def
      initial_config_def)

text \<open>
  C9. \<open>onSubmit\<close> has no reentrancy check. Whether it returns early is decided by the
  connection, the public key, the signer and the receiver identifier alone. When these
  preconditions hold, an invocation in any configuration \<open>g\<close>, whatever \<open>loading\<close>, the
  flag and the runs of \<open>onSubmit\<close> already suspended in \<open>g\<close> are, calls \<open>deposit\<close> and
  is suspended beside them. When its promises then settle without a failure it calls
  \<open>signTransaction\<close>, \<open>execute\<close> and \<open>depositInDatabase\<close> and shows the success
  notification, the runs suspended before it staying as they were. Moreover each suspended
  run, wherever it is in the list and whatever else has run in between, makes its next call
  when its promise resolves: after \<open>deposit\<close> it calls \<open>signTransaction\<close>, after that
  \<open>execute\<close>, after that \<open>depositInDatabase\<close>, and after that it shows the success
  notification and ends. The effects of an invocation, and of each of its stretches, do not
  depend on the component state they start from.
\<close>

theorem onSubmit_not_guarded:
  "(\<exists>msg. onSubmit_begin L c s = (s, [Console_log msg], None)) =
     (\<not> connection c \<or> publicKey c = None \<or> \<not> signTransaction c
      \<or> receiverDiscordId c = None \<or> receiverDiscordId c = Some [])
   \<and> (submit_preconditions c \<and> publicKey c = Some pk \<longrightarrow>
        comp (react L g (Invoke_onSubmit c)) = (comp g)\<lparr>loading := True\<rparr>
        \<and> trace (react L g (Invoke_onSubmit c)) =
            trace g @ [Call_deposit (deposit_request_of L c pk)]
        \<and> submits (react L g (Invoke_onSubmit c)) =
            submits g @ [(c, Await_deposit (deposit_request_of L c pk))])
   \<and> (submit_preconditions c \<and> publicKey c = Some pk
        \<and> deposit E (deposit_request_of L c pk) = Inr d
        \<and> Transaction_from_base64 L (serializedTransaction d) = Inr tx
        \<and> wallet_signTransaction E tx = Inr stx
        \<and> serialize_base64 L stx = Inr b64
        \<and> execute E (execute_request_of d b64) = Inr res
        \<and> depositInDatabase E (database_request_of L c d) = Inr u \<longrightarrow>
        (settle_with E L (length (submits g)) ^^ 4) (react L g (Invoke_onSubmit c)) =
          g\<lparr>comp := (comp g)\<lparr>loading := False\<rparr>,
            trace := trace g @
              [Call_deposit (deposit_request_of L c pk),
               Call_signTransaction tx,
               Call_execute (execute_request_of d b64),
               Call_depositInDatabase (database_request_of L c d),
               Toast (success_toast c (txHash res))]\<rparr>)
   \<and> (i < length (submits g) \<and> submits g ! i = (c, Await_deposit req)
        \<and> Transaction_from_base64 L (serializedTransaction d) = Inr tx \<longrightarrow>
        react L g (Settle_submit i (Deposit_settled (Inr d))) =
          g\<lparr>trace := trace g @ [Call_signTransaction tx],
            submits := (submits g)[i := (c, Await_signTransaction d tx)]\<rparr>)
   \<and> (i < length (submits g) \<and> submits g ! i = (c, Await_signTransaction d tx)
        \<and> serialize_base64 L stx = Inr b64 \<longrightarrow>
        react L g (Settle_submit i (SignTransaction_settled (Inr stx))) =
          g\<lparr>trace := trace g @ [Call_execute (execute_request_of d b64)],
            submits := (submits g)[i := (c, Await_execute d (execute_request_of d b64))]\<rparr>)
   \<and> (i < length (submits g) \<and> submits g ! i = (c, Await_execute d ereq) \<longrightarrow>
        react L g (Settle_submit i (Execute_settled (Inr res))) =
          g\<lparr>trace := trace g @ [Call_depositInDatabase (database_request_of L c d)],
            submits := (submits g)[i := (c, Await_depositInDatabase (txHash res)
                                               (database_request_of L c d))]\<rparr>)
   \<and> (i < length (submits g) \<and> submits g ! i = (c, Await_depositInDatabase h dreq) \<longrightarrow>
        react L g (Settle_submit i (DepositInDatabase_settled (Inr u))) =
          g\<lparr>comp := (comp g)\<lparr>loading := False\<rparr>,
            trace := trace g @ [Toast (success_toast c h)],
            submits := take i (submits g) @ drop (Suc i) (submits g)\<rparr>)
   \<and> snd (onSubmit E L c s) = snd (onSubmit E L c s')
   \<and> map_option snd (onSubmit_resume L c a v s) = map_option snd (onSubmit_resume L c a v s')"
proof -
  have 1: "(\<exists>msg. onSubmit_begin L c s = (s, [Console_log msg], None)) =
     (\<not> connection c \<or> publicKey c = None \<or> \<not> signTransaction c
      \<or> receiverDiscordId c = None \<or> receiverDiscordId c = Some [])"
    by (rule onSubmit_begin_early_iff)
  have 2: "submit_preconditions c \<and> publicKey c = Some pk \<longrightarrow>
        comp (react L g (Invoke_onSubmit c)) = (comp g)\<lparr>loading := True\<rparr>
        \<and> trace (react L g (Invoke_onSubmit c)) =
            trace g @ [Call_deposit (deposit_request_of L c pk)]
        \<and> submits (react L g (Invoke_onSubmit c)) =
            submits g @ [(c, Await_deposit (deposit_request_of L c pk))]"
    by (simp add: onSubmit_begin_ok)
  note 3 = reentrant_run [of c pk E L d tx stx b64 res u g]
  note 4 = settled_deposit_proceeds [of i g c req L d tx]
  note 5 = settled_signTransaction_proceeds [of i g c d tx L stx b64]
  note 6 = settled_execute_proceeds [of i g c d ereq L res]
  note 7 = settled_depositInDatabase_ends [of i g c h dreq L u]
  note 8 = onSubmit_effects_stateless [of E L c s s']
  note 9 = onSubmit_resume_stateless [of L c a v s s']
  from 1 2 3 4 5 6 7 8 9 show ?thesis
    by blast
qed

theorem onSubmit_not_guarded_witness:
  "submit_preconditions render0
   \<and> loading (comp (run lib0 [Invoke_onSubmit render0]))
   \<and> submits (run lib0 [Invoke_onSubmit render0]) =
       [(render0, Await_deposit (deposit_request_of lib0 render0 ''payer''))]
   \<and> trace (run lib0 [Invoke_onSubmit render0, Invoke_onSubmit render0]) =
       [Call_deposit (deposit_request_of lib0 render0 ''payer''),
        Call_deposit (deposit_request_of lib0 render0 ''payer'')]
   \<and> submits (run lib0 [Invoke_onSubmit render0, Invoke_onSubmit render0]) =
       [(render0, Await_deposit (deposit_request_of lib0 render0 ''payer'')),
        (render0, Await_deposit (deposit_request_of lib0 render0 ''payer''))]
   \<and> trace ((settle_with env0 lib0 1 ^^ 4)
               (run lib0 [Invoke_onSubmit render0, Invoke_onSubmit render0])) =
       [Call_deposit (deposit_request_of lib0 render0 ''payer''),
        Call_deposit (deposit_request_of lib0 render0 ''payer''),
        Call_signTransaction ''AQID'',
        Call_execute (execute_request_of depositRes0 ''AQID+sig''),
        Call_depositInDatabase (database_request_of lib0 render0 depositRes0),
        Toast (success_toast render0 ''5VfY'')]
   \<and> submits ((settle_with env0 lib0 1 ^^ 4)
                 (run lib0 [Invoke_onSubmit render0, Invoke_onSubmit render0])) =
       [(render0, Await_deposit (deposit_request_of lib0 render0 ''payer''))]
   \<and> trace (run lib0
        [Invoke_onSubmit render0, Invoke_onSubmit render0,
         Settle_submit 0 (Deposit_settled (Inr depositRes0)),
         Settle_submit 1 (Deposit_settled (Inr depositRes0)),
         Settle_submit 1 (SignTransaction_settled (Inr ''AQID+sig'')),
         Settle_submit 0 (SignTransaction_settled (Inr ''AQID+sig'')),
         Settle_submit 0 (Execute_settled (Inr \<lparr>txHash = ''5VfY''\<rparr>)),
         Settle_submit 1 (Execute_settled (Inr \<lparr>txHash = ''3kQz''\<rparr>)),
         Settle_submit 1 (DepositInDatabase_settled (Inr ())),
         Settle_submit 0 (DepositInDatabase_settled (Inr ()))]) =
       [Call_deposit (deposit_request_of lib0 render0 ''payer''),
        Call_deposit (deposit_request_of lib0 render0 ''payer''),
        Call_signTransaction ''AQID'',
        Call_signTransaction ''AQID'',
        Call_execute (execute_request_of depositRes0 ''AQID+sig''),
        Call_execute (execute_request_of depositRes0 ''AQID+sig''),
        Call_depositInDatabase (database_request_of lib0 render0 depositRes0),
        Call_depositInDatabase (database_request_of lib0 render0 depositRes0),
        Toast (success_toast render0 ''3kQz''),
        Toast (success_toast render0 ''5VfY'')]"
proof -
  let ?g = "run lib0 [Invoke_onSubmit render0]"
  let ?req = "deposit_request_of lib0 render0 ''payer''"
  have g: "loading (comp ?g)"
    "submits ?g = [(render0, Await_deposit ?req)]"
    "trace ?g = [Call_deposit ?req]"
    by (simp_all add: run_def onSubmit_begin_ok [OF preconditions_render0] initial_config_def)
  have a: "deposit env0 ?req = Inr depositRes0"
    "Transaction_from_base64 lib0 (serializedTransaction depositRes0) = Inr ''AQID''"
    "wallet_signTransaction env0 ''AQID'' = Inr ''AQID+sig''"
    "serialize_base64 lib0 ''AQID+sig'' = Inr ''AQID+sig''"
    "execute env0 (execute_request_of depositRes0 ''AQID+sig'') = Inr \<lparr>txHash = ''5VfY''\<rparr>"
    "depositInDatabase env0 (database_request_of lib0 render0 depositRes0) = Inr ()"
    by (simp_all add: env0_def lib0_def depositRes0_def)
  have r: "run lib0 [Invoke_onSubmit render0, Invoke_onSubmit render0] =
      react lib0 ?g (Invoke_onSubmit render0)"
    by (simp add: run_def)
  from onSubmit_not_guarded [where L = lib0 and c = render0 and pk = "''payer''" and g = ?g
      and E = env0 and d = depositRes0 and tx = "''AQID''" and stx = "''AQID+sig''"
      and ?b64.0 = "''AQID+sig''" and res = "\<lparr>txHash = ''5VfY''\<rparr>" and u = "()"]
    preconditions_render0 a
  have n: "trace (react lib0 ?g (Invoke_onSubmit render0)) = trace ?g @ [Call_deposit ?req]"
    "submits (react lib0 ?g (Invoke_onSubmit render0)) =
       submits ?g @ [(render0, Await_deposit ?req)]"
    "(settle_with env0 lib0 (length (submits ?g)) ^^ 4) (react lib0 ?g (Invoke_onSubmit render0)) =
       ?g\<lparr>comp := (comp ?g)\<lparr>loading := False\<rparr>,
         trace := trace ?g @
           [Call_deposit ?req,
            Call_signTransaction ''AQID'',
            Call_execute (execute_request_of depositRes0 ''AQID+sig''),
            Call_depositInDatabase (database_request_of lib0 render0 depositRes0),
            Toast (success_toast render0 (txHash \<lparr>txHash = ''5VfY''\<rparr>))]\<rparr>"
    by blast+
  have l: "length (submits ?g) = 1"
    by (simp add: g)
  have i: "trace (run lib0
        [Invoke_onSubmit render0, Invoke_onSubmit render0,
         Settle_submit 0 (Deposit_settled (Inr depositRes0)),
         Settle_submit 1 (Deposit_settled (Inr depositRes0)),
         Settle_submit 1 (SignTransaction_settled (Inr ''AQID+sig'')),
         Settle_submit 0 (SignTransaction_settled (Inr ''AQID+sig'')),
         Settle_submit 0 (Execute_settled (Inr \<lparr>txHash = ''5VfY''\<rparr>)),
         Settle_submit 1 (Execute_settled (Inr \<lparr>txHash = ''3kQz''\<rparr>)),
         Settle_submit 1 (DepositInDatabase_settled (Inr ())),
         Settle_submit 0 (DepositInDatabase_settled (Inr ()))]) =
       [Call_deposit ?req, Call_deposit ?req,
        Call_signTransaction ''AQID'', Call_signTransaction ''AQID'',
        Call_execute (execute_request_of depositRes0 ''AQID+sig''),
        Call_execute (execute_request_of depositRes0 ''AQID+sig''),
        Call_depositInDatabase (database_request_of lib0 render0 depositRes0),
        Call_depositInDatabase (database_request_of lib0 render0 depositRes0),
        Toast (success_toast render0 ''3kQz''),
        Toast (success_toast render0 ''5VfY'')]"
    by (simp add: run_def initial_config_def onSubmit_begin_ok [OF preconditions_render0]
        onSubmit_deposited_def onSubmit_signed_def onSubmit_executed_def onSubmit_recorded_def
        a(2) a(4))
  from preconditions_render0(1) g r n [unfolded l] i show ?thesis
    by (simp del: react.simps)
qed

section \<open>Affordability and the submit button\<close>

text \<open>
  C3, as amended. \<open>hasBalance()\<close> is true if and only if the requested amount is \<open>NaN\<close> or
  is less than or equal to the fetched balance amount, where a missing, a \<open>null\<close> and a
  \<open>NaN\<close> balance count as 0. The claim as the specification words it
  (\<open>affordable_as_specified\<close>) fails for an amount that does not parse.
\<close>

theorem hasBalance_iff:
  "hasBalance L c s =
     (render_amount L c = NaN
      \<or> js_le (render_amount L c)
           (case tokenBalance s of
              None \<Rightarrow> Fin 0
            | Some b \<Rightarrow> (case amount b of None \<Rightarrow> Fin 0 | Some n \<Rightarrow> if n = NaN then Fin 0 else n)))"
proof -
  have "hasBalance L c s = (render_amount L c = NaN \<or> js_le (render_amount L c) (balanceAmount s))"
    using balanceAmount_not_NaN [of s]
    by (cases "render_amount L c = NaN") (simp_all add: hasBalance_def js_le_iff)
  then show ?thesis
    by (simp only: balanceAmount_cases)
qed

theorem hasBalance_counterexample:
  "hasBalance lib0 (render0\<lparr>amount_query := Some ''abc''\<rparr>) initial_state
   \<noteq> affordable_as_specified lib0 (render0\<lparr>amount_query := Some ''abc''\<rparr>) initial_state"
  by (simp add: hasBalance_def affordable_as_specified_def balanceAmount_def or_zero_def
      truthy_num_def js_le_def sample_defs request_defs)

theorem hasBalance_iff_witness:
  "hasBalance lib0 render0 (initial_state\<lparr>tokenBalance :=
       Some \<lparr>mint = usdc, amount = Some (Fin 12), decimals = 6\<rparr>\<rparr>)
   \<and> \<not> hasBalance lib0 render0 initial_state
   \<and> hasBalance lib0 (render0\<lparr>amount_query := Some ''abc''\<rparr>) initial_state"
  using
    hasBalance_iff [of lib0 render0 "initial_state\<lparr>tokenBalance :=
       Some \<lparr>mint = usdc, amount = Some (Fin 12), decimals = 6\<rparr>\<rparr>"]
    hasBalance_iff [of lib0 render0 initial_state]
    hasBalance_iff [of lib0 "render0\<lparr>amount_query := Some ''abc''\<rparr>" initial_state]
  by (simp add: js_le_def sample_defs request_defs)

text \<open>
  C4. In every state the component can reach, the \<open>disabled\<close> flag of the submit button is
  true if and only if \<open>error\<close> is not \<open>null\<close>, or \<open>loading\<close> is true, or \<open>hasBalance()\<close> is
  false. (The flag tests \<open>error\<close> for truthiness; the component never stores the empty
  string there.)
\<close>

theorem disabled_iff:
  "disabled L c (comp (run L acts)) =
     (error (comp (run L acts)) \<noteq> None \<or> loading (comp (run L acts))
      \<or> \<not> hasBalance L c (comp (run L acts)))"
  using error_reachable [of L acts] by (simp add: disabled_def truthy_str_def)

theorem disabled_iff_witness:
  "disabled lib0 render0 (comp (run lib0 [Invoke_fetchTokenBalance render0]))
   \<and> loading (comp (run lib0 [Invoke_fetchTokenBalance render0]))
   \<and> disabled lib0 render0
        (comp (run lib0 [Invoke_fetchTokenBalance render0, Settle_fetch (Inr [account1])]))
   \<and> error (comp (run lib0 [Invoke_fetchTokenBalance render0, Settle_fetch (Inr [account1])]))
       = Some ''Required token not found in wallet.''
   \<and> \<not> disabled lib0 render0
        (comp (run lib0 [Invoke_fetchTokenBalance render0, Settle_fetch (Inr [account0])]))"
  using
    disabled_iff [of lib0 render0 "[Invoke_fetchTokenBalance render0]"]
    disabled_iff [of lib0 render0 "[Invoke_fetchTokenBalance render0, Settle_fetch (Inr [account1])]"]
    disabled_iff [of lib0 render0 "[Invoke_fetchTokenBalance render0, Settle_fetch (Inr [account0])]"]
  by (simp add: run_def fetchTokenBalance_begin_def fetchTokenBalance_settled_def
      fetch_finally_def hasBalance_def balanceAmount_def or_zero_def truthy_num_def js_gt_def
      sample_defs request_defs)

text \<open>
  C10. When the \<open>amount\<close> query parameter is a non-empty string that \<open>Number\<close> maps to
  \<open>NaN\<close>, the amount of the render is \<open>NaN\<close>, \<open>hasBalance()\<close> is true whatever the balance
  is, the button is disabled only by \<open>error\<close> or \<open>loading\<close>, and every call of \<open>deposit\<close>
  and of \<open>depositInDatabase\<close> that \<open>onSubmit\<close> makes passes \<open>NaN\<close> as the amount; with the
  preconditions true the call of \<open>deposit\<close> is made.
\<close>

theorem NaN_amount:
  assumes "amount_query c = Some str" and "str \<noteq> []" and "Number_string L str = NaN"
  shows "render_amount L c = NaN
    \<and> hasBalance L c s
    \<and> disabled L c s = (truthy_str (error s) \<or> loading s)
    \<and> (\<forall>req. Call_deposit req \<in> set (fst (snd (onSubmit E L c s))) \<longrightarrow>
           dq_amount req = NaN \<and> token_amount req = NaN)
    \<and> (\<forall>req. Call_depositInDatabase req \<in> set (fst (snd (onSubmit E L c s))) \<longrightarrow>
           db_amount req = NaN)
    \<and> (submit_preconditions c \<longrightarrow>
         (\<exists>req rest. fst (snd (onSubmit E L c s)) = Call_deposit req # rest \<and> dq_amount req = NaN))"
proof -
  have n: "render_amount L c = NaN"
    using assms by (rule render_amount_NaN)
  have h: "hasBalance L c s"
    by (simp add: hasBalance_def n)
  have d: "disabled L c s = (truthy_str (error s) \<or> loading s)"
    by (simp add: disabled_def h)
  have a: "\<forall>req. Call_deposit req \<in> set (fst (snd (onSubmit E L c s))) \<longrightarrow>
           dq_amount req = NaN \<and> token_amount req = NaN"
    using onSubmit_deposit_amounts [of _ E L c s] n by simp
  have b: "\<forall>req. Call_depositInDatabase req \<in> set (fst (snd (onSubmit E L c s))) \<longrightarrow>
           db_amount req = NaN"
    using onSubmit_database_amount [of _ E L c s] n by simp
  have f: "submit_preconditions c \<longrightarrow>
         (\<exists>req rest. fst (snd (onSubmit E L c s)) = Call_deposit req # rest \<and> dq_amount req = NaN)"
  proof
    assume p: "submit_preconditions c"
    then obtain pk where pk: "publicKey c = Some pk"
      using preconditions_publicKey by blast
    from onSubmit_first_call [OF p pk, of E L s] obtain rest where
      "fst (snd (onSubmit E L c s)) = Call_deposit (deposit_request_of L c pk) # rest" ..
    moreover have "dq_amount (deposit_request_of L c pk) = NaN"
      by (simp add: deposit_request_of_def n)
    ultimately show "\<exists>req rest. fst (snd (onSubmit E L c s)) = Call_deposit req # rest
        \<and> dq_amount req = NaN"
      by blast
  qed
  from n h d a b f show ?thesis by blast
qed

theorem NaN_amount_witness:
  "Number_string lib0 ''abc'' = NaN
   \<and> hasBalance lib0 (render0\<lparr>amount_query := Some ''abc''\<rparr>) initial_state
   \<and> \<not> disabled lib0 (render0\<lparr>amount_query := Some ''abc''\<rparr>) initial_state
   \<and> onSubmit env0 lib0 (render0\<lparr>amount_query := Some ''abc''\<rparr>) initial_state =
       (initial_state,
        [Call_deposit \<lparr>payer = ''payer'', dq_vaultId = None, strategy = ''blockhash'',
                       network = ''mainnet'', dq_amount = NaN, token_mintAddress = usdc,
                       token_amount = NaN\<rparr>,
         Call_signTransaction ''AQID'',
         Call_execute \<lparr>ex_vaultId = ''vault'', ex_transactionId = ''t1'',
                       signedTransaction = ''AQID+sig''\<rparr>,
         Call_depositInDatabase \<lparr>db_amount = NaN, db_vaultId = ''vault'',
                                 discordUserId = Some ''42''\<rparr>,
         Toast (success_toast render0 ''5VfY'')],
        None)"
proof -
  let ?c = "render0\<lparr>amount_query := Some ''abc''\<rparr>"
  have q: "amount_query ?c = Some ''abc''" "''abc'' \<noteq> []" "Number_string lib0 ''abc'' = NaN"
    by (simp_all add: sample_defs)
  have p: "submit_preconditions ?c" "publicKey ?c = Some ''payer''"
    by (simp_all add: submit_preconditions_def truthy_str_def render0_def)
  have r: "onSubmit env0 lib0 ?c initial_state =
       (initial_state,
        [Call_deposit \<lparr>payer = ''payer'', dq_vaultId = None, strategy = ''blockhash'',
                       network = ''mainnet'', dq_amount = NaN, token_mintAddress = usdc,
                       token_amount = NaN\<rparr>,
         Call_signTransaction ''AQID'',
         Call_execute \<lparr>ex_vaultId = ''vault'', ex_transactionId = ''t1'',
                       signedTransaction = ''AQID+sig''\<rparr>,
         Call_depositInDatabase \<lparr>db_amount = NaN, db_vaultId = ''vault'',
                                 discordUserId = Some ''42''\<rparr>,
         Toast (success_toast render0 ''5VfY'')],
        None)"
    by (subst onSubmit_run [OF p]) (simp add: sample_defs request_defs)
  from NaN_amount [OF q, of initial_state env0] q(3) r show ?thesis
    by (simp add: initial_state_def truthy_str_def)
qed

section \<open>The balance fetch\<close>

text \<open>
  C6. At most one balance fetch is in flight at any time, and the flag is set exactly
  while one is. An invocation of \<open>fetchTokenBalance\<close> while the flag is set, or without a
  public key, a connected wallet or a connection, changes nothing: no state, no effect, no
  new pending call. Otherwise the invocation sets the flag and makes the one RPC call. When
  the call settles, whatever it settles to, the flag is cleared and no fetch is pending.
\<close>

theorem one_fetch_in_flight:
  "fetches (run L acts) \<le> 1
   \<and> isFetching (comp (run L acts)) = (fetches (run L acts) = 1)
   \<and> (isFetching (comp g) \<or> publicKey c = None \<or> \<not> connected c \<or> \<not> connection c \<longrightarrow>
        react L g (Invoke_fetchTokenBalance c) = g)
   \<and> (\<not> (isFetching (comp (run L acts)) \<or> publicKey c = None \<or> \<not> connected c
           \<or> \<not> connection c) \<longrightarrow>
        isFetching (comp (react L (run L acts) (Invoke_fetchTokenBalance c)))
        \<and> fetches (react L (run L acts) (Invoke_fetchTokenBalance c)) = 1
        \<and> trace (react L (run L acts) (Invoke_fetchTokenBalance c)) =
            trace (run L acts) @ [Call_getParsedTokenAccountsByOwner (publicKey c)])
   \<and> \<not> isFetching (comp (react L (run L acts) (Settle_fetch r)))
   \<and> fetches (react L (run L acts) (Settle_fetch r)) = 0"
proof -
  have i: "loop_invariant (run L acts)"
    by (rule loop_invariant_run)
  then have a: "fetches (run L acts) \<le> 1"
    and b: "isFetching (comp (run L acts)) = (fetches (run L acts) = 1)"
    by (simp_all add: loop_invariant_def)
  have d: "\<not> (isFetching (comp (run L acts)) \<or> publicKey c = None \<or> \<not> connected c
           \<or> \<not> connection c) \<longrightarrow>
        isFetching (comp (react L (run L acts) (Invoke_fetchTokenBalance c)))
        \<and> fetches (react L (run L acts) (Invoke_fetchTokenBalance c)) = 1
        \<and> trace (react L (run L acts) (Invoke_fetchTokenBalance c)) =
            trace (run L acts) @ [Call_getParsedTokenAccountsByOwner (publicKey c)]"
    using a b by (auto simp: fetchTokenBalance_begin_def)
  from a b d blocked_fetch [of g c L] settled_fetch_clears [OF i, of L r] show ?thesis
    by blast
qed

theorem one_fetch_in_flight_witness:
  "run lib0 [Invoke_fetchTokenBalance render0, Invoke_fetchTokenBalance render0] =
     run lib0 [Invoke_fetchTokenBalance render0]
   \<and> isFetching (comp (run lib0 [Invoke_fetchTokenBalance render0]))
   \<and> fetches (run lib0 [Invoke_fetchTokenBalance render0]) = 1
   \<and> trace (run lib0 [Invoke_fetchTokenBalance render0]) =
       [Call_getParsedTokenAccountsByOwner (Some ''payer'')]
   \<and> \<not> isFetching (comp (run lib0 [Invoke_fetchTokenBalance render0,
                                     Settle_fetch (Inl ''timeout'')]))
   \<and> fetches (run lib0 [Invoke_fetchTokenBalance render0, Settle_fetch (Inl ''timeout'')]) = 0"
proof -
  have s: "isFetching (comp (run lib0 [Invoke_fetchTokenBalance render0]))"
    "\<not> isFetching (comp (run lib0 ([] :: string action list)))"
    "\<not> (publicKey render0 = None \<or> \<not> connected render0 \<or> \<not> connection render0)"
    by (simp_all add: run_def fetchTokenBalance_begin_def sample_defs)
  from s one_fetch_in_flight [of lib0 "[Invoke_fetchTokenBalance render0]"
      "run lib0 [Invoke_fetchTokenBalance render0]" render0 "Inl ''timeout''"]
    one_fetch_in_flight [of lib0 "[]" "run lib0 []" render0 "Inl ''timeout''"]
  have "react lib0 (run lib0 [Invoke_fetchTokenBalance render0]) (Invoke_fetchTokenBalance render0)
          = run lib0 [Invoke_fetchTokenBalance render0]"
    and "fetches (react lib0 (run lib0 []) (Invoke_fetchTokenBalance render0)) = 1"
    and "trace (react lib0 (run lib0 []) (Invoke_fetchTokenBalance render0)) =
            trace (run lib0 []) @ [Call_getParsedTokenAccountsByOwner (publicKey render0)]"
    and "\<not> isFetching (comp (react lib0 (run lib0 [Invoke_fetchTokenBalance render0])
            (Settle_fetch (Inl ''timeout''))))"
    and "fetches (react lib0 (run lib0 [Invoke_fetchTokenBalance render0])
            (Settle_fetch (Inl ''timeout''))) = 0"
    by blast+
  with s(1) show ?thesis
    by (simp add: run_def initial_config_def render0_def)
qed

text \<open>
  C7. When a pending balance fetch completes with accounts none of which has the
  configured mint, the stored balance is \<open>null\<close>, \<open>error\<close> is the token-not-found message,
  the inline banner shows it, and the submit button is disabled for every render.
\<close>

theorem token_not_found:
  assumes "fetches g \<noteq> 0" and "\<forall>a \<in> set accounts. info_mint a \<noteq> mintAddress L"
  shows "tokenBalance (comp (react L g (Settle_fetch (Inr accounts)))) = None
    \<and> error (comp (react L g (Settle_fetch (Inr accounts)))) =
        Some ''Required token not found in wallet.''
    \<and> error_banner (comp (react L g (Settle_fetch (Inr accounts)))) =
        Some ''Required token not found in wallet.''
    \<and> disabled L c (comp (react L g (Settle_fetch (Inr accounts))))"
proof -
  from assms(2) have "List.find (\<lambda>account. info_mint account = mintAddress L) accounts = None"
    by (simp add: find_None_iff)
  with assms(1) show ?thesis
    by (simp add: fetch_defs error_banner_def disabled_def truthy_str_def)
qed

theorem token_not_found_witness:
  "fetches (run lib0 [Invoke_fetchTokenBalance render0]) = 1
   \<and> comp (run lib0 [Invoke_fetchTokenBalance render0, Settle_fetch (Inr [account1])]) =
       \<lparr>tokenBalance = None, loading = False,
        error = Some ''Required token not found in wallet.'', isFetching = False\<rparr>
   \<and> disabled lib0 render0
       (comp (run lib0 [Invoke_fetchTokenBalance render0, Settle_fetch (Inr [account1])]))"
proof -
  have f: "fetches (run lib0 [Invoke_fetchTokenBalance render0]) \<noteq> 0"
    and n: "\<forall>a \<in> set [account1]. info_mint a \<noteq> mintAddress lib0"
    by (simp_all add: run_def fetchTokenBalance_begin_def sample_defs)
  from token_not_found [OF f n, of render0] show ?thesis
    by (simp add: run_def fetch_defs sample_defs)
qed

text \<open>
  C8. When a pending balance fetch completes with accounts one of which has the configured
  mint, the stored balance has the mint, the \<open>uiAmount\<close> and the decimals of that account
  (the first such account of the answer, the one \<open>find\<close> returns), and \<open>error\<close> is \<open>null\<close>:
  it was cleared when the fetch began and nothing sets it while the fetch is pending.
\<close>

theorem token_found:
  assumes "fetches (run L acts) \<noteq> 0" and "\<exists>a \<in> set accounts. info_mint a = mintAddress L"
  shows "\<exists>a. List.find (\<lambda>account. info_mint account = mintAddress L) accounts = Some a
    \<and> a \<in> set accounts \<and> info_mint a = mintAddress L
    \<and> tokenBalance (comp (react L (run L acts) (Settle_fetch (Inr accounts)))) =
        Some \<lparr>mint = info_mint a, amount = uiAmount a, decimals = tokenAmount_decimals a\<rparr>
    \<and> error (comp (react L (run L acts) (Settle_fetch (Inr accounts)))) = None"
proof -
  from assms(2) obtain a where
    a: "List.find (\<lambda>account. info_mint account = mintAddress L) accounts = Some a"
    by (cases "List.find (\<lambda>account. info_mint account = mintAddress L) accounts")
       (auto simp: find_None_iff)
  then have m: "a \<in> set accounts" "info_mint a = mintAddress L"
    by (auto simp: find_Some_iff)
  have "loop_invariant (run L acts)"
    by (rule loop_invariant_run)
  with assms(1) have e: "error (comp (run L acts)) = None"
    by (auto simp: loop_invariant_def)
  from a assms(1) e have
    "tokenBalance (comp (react L (run L acts) (Settle_fetch (Inr accounts)))) =
        Some \<lparr>mint = info_mint a, amount = uiAmount a, decimals = tokenAmount_decimals a\<rparr>
     \<and> error (comp (react L (run L acts) (Settle_fetch (Inr accounts)))) = None"
    by (simp add: fetch_defs)
  with a m show ?thesis by blast
qed

theorem token_found_witness:
  "fetches (run lib0 [Invoke_fetchTokenBalance render0, Invoke_onSubmit render0]) = 1
   \<and> account0 \<in> set [account1, account0] \<and> info_mint account0 = mintAddress lib0
   \<and> comp (run lib0 [Invoke_fetchTokenBalance render0, Invoke_onSubmit render0,
                     Settle_fetch (Inr [account1, account0])]) =
       \<lparr>tokenBalance = Some \<lparr>mint = usdc, amount = Some (Fin 12), decimals = 6\<rparr>,
        loading = False, error = None, isFetching = False\<rparr>"
proof -
  have f: "fetches (run lib0 [Invoke_fetchTokenBalance render0, Invoke_onSubmit render0]) \<noteq> 0"
    and n: "\<exists>a \<in> set [account1, account0]. info_mint a = mintAddress lib0"
    by (simp_all add: run_def fetchTokenBalance_begin_def onSubmit_begin_def truthy_str_def
        sample_defs)
  from token_found [OF f n] show ?thesis
    by (simp add: run_def fetch_defs onSubmit_begin_def truthy_str_def sample_defs)
qed

end
